theory Spec2Isabelle
  imports Main
begin

section \<open>Go values that the package handles\<close>

text \<open>
  The package \<open>tiny\<close> (files \<open>pkg/tiny/result.go\<close> and \<open>pkg/tiny/result_context.go\<close>) is
  generic in the value type \<open>T\<close> and in the error type \<open>E\<close>, where \<open>E\<close> is constrained by
  the interface \<open>error\<close>. Its behaviour depends on three things that Go decides at run time:
  whether an \<open>E\<close> converted to \<open>any\<close> is the nil interface, whether an interface value
  can be asserted back to \<open>E\<close>, and how \<open>fmt\<close> prints a fault. All three are functions of
  the dynamic type of the value, so error values are modelled by their boxed form: a
  dynamic value, or the nil interface.

  The dynamic values are the ones the package meets: the \<open>*errors.errorString\<close> that
  \<open>errors.New\<close> and \<open>fmt.Errorf\<close> without \<open>%w\<close> build (\<open>context.Canceled\<close> is one), the value
  \<open>context.DeadlineExceeded\<close>, the \<open>*fmt.wrapError\<close> that \<open>fmt.Errorf\<close> builds for \<open>%w\<close>, and
  pointers to a caller's own struct type \<open>name\<close> declared as
  \<^verbatim>\<open>type name struct{ msg string };  func (e *name) Error() string { return e.msg }\<close>
  which may be nil pointers. Pointers are compared by what they point to.
\<close>

datatype errval =
    ErrorString string
  | DeadlineExceededError
  | WrapError string errval
  | NilPtr string
  | Ptr string string

text \<open>A value of an interface type: \<open>None\<close> is the nil interface.\<close>

type_synonym goerror = "errval option"

text \<open>
  The type argument \<open>E\<close>: the interface \<open>error\<close> itself, or the pointer type \<open>*name\<close> of
  a caller's struct. A value of type \<open>E\<close> is held in its boxed form, so the conversion
  \<open>any(err)\<close> is the identity on the model; for \<open>E = *name\<close> the boxed value is never the
  nil interface, also when the pointer is nil.
\<close>

datatype gotype = TError | TPtr string

fun zeroE :: "gotype \<Rightarrow> goerror" where
  "zeroE TError = None"
| "zeroE (TPtr n) = Some (NilPtr n)"

fun user_type :: "errval \<Rightarrow> string option" where
  "user_type (NilPtr n) = Some n"
| "user_type (Ptr n s) = Some n"
| "user_type _ = None"

fun hasType :: "gotype \<Rightarrow> goerror \<Rightarrow> bool" where
  "hasType TError e = True"
| "hasType (TPtr n) None = False"
| "hasType (TPtr n) (Some v) = (user_type v = Some n)"

text \<open>
  A panic carries the string given to \<open>panic\<close>, or the run-time error of a failed type
  assertion (the interface value and the type it was asserted to). A call returns,
  panics, or never returns; continuations supplied by the caller are Go functions and
  may do any of the three.
\<close>

datatype panic = PanicString string | TypeAssertionError goerror gotype

datatype 'a outcome = Returns 'a | Panics panic | NeverReturns

text \<open>
  The type assertion \<open>x.(E)\<close>: it fails on the nil interface; an interface type \<open>error\<close>
  accepts every dynamic value (all of them implement it); a pointer type accepts only a
  dynamic value of that very type.
\<close>

fun assertE :: "gotype \<Rightarrow> goerror \<Rightarrow> goerror outcome" where
  "assertE E None = Panics (TypeAssertionError None E)"
| "assertE TError (Some v) = Returns (Some v)"
| "assertE (TPtr n) (Some v) =
     (if user_type v = Some n then Returns (Some v)
      else Panics (TypeAssertionError (Some v) (TPtr n)))"

text \<open>The method \<open>Error\<close>; \<open>None\<close> where it panics, on the nil receiver.\<close>

fun Error :: "errval \<Rightarrow> string option" where
  "Error (ErrorString s) = Some s"
| "Error DeadlineExceededError = Some ''context deadline exceeded''"
| "Error (WrapError m e) = Some m"
| "Error (NilPtr n) = None"
| "Error (Ptr n s) = Some s"

definition Canceled :: errval where
  "Canceled = ErrorString ''context canceled''"

definition DeadlineExceeded :: errval where
  "DeadlineExceeded = DeadlineExceededError"


fun is_chain :: "errval \<Rightarrow> errval \<Rightarrow> bool" where
  "is_chain (WrapError m e) target = (WrapError m e = target \<or> is_chain e target)"
| "is_chain v target = (v = target)"

fun errors_Is :: "goerror \<Rightarrow> goerror \<Rightarrow> bool" where
  "errors_Is (Some e) (Some target) = is_chain e target"
| "errors_Is err target = (err = target)"

text \<open>
  What \<open>fmt\<close> prints for a fault under \<open>%v\<close>: \<open><nil>\<close> for the nil interface, else the text
  of \<open>Error()\<close>, and \<open><nil>\<close> again when that call panics on a nil pointer.
\<close>

fun fmt_v :: "goerror \<Rightarrow> string" where
  "fmt_v None = ''<nil>''"
| "fmt_v (Some v) = (case Error v of Some s \<Rightarrow> s | None \<Rightarrow> ''<nil>'')"

text \<open>
  \<open>fmt.Errorf("%s: %w", msg, fault)\<close>. A non-nil operand of \<open>%w\<close> is printed as under \<open>%v\<close>
  and kept as the wrapped error; the nil interface is a bad operand, printed as
  \<open>%!w(<nil>)\<close>, and nothing is wrapped. On the nil operand the dynamic type of the
  result differs between Go releases (an \<open>*errors.errorString\<close>, or a \<open>*fmt.wrapError\<close>
  that wraps nil); its text and what \<open>errors.Unwrap\<close> returns are the same in both, and
  nothing below depends on more.
\<close>

fun Errorf_wrap :: "string \<Rightarrow> goerror \<Rightarrow> errval" where
  "Errorf_wrap msg None = ErrorString (msg @ '': '' @ ''%!w(<nil>)'')"
| "Errorf_wrap msg (Some v) = WrapError (msg @ '': '' @ fmt_v (Some v)) v"

text \<open>
  \<open>fmt.Errorf("operation timed out after %v", timeout)\<close>. A \<open>time.Duration\<close> is a number of
  nanoseconds; its method \<open>String\<close> belongs to the standard library and is the parameter
  \<open>dstr\<close>.
\<close>

definition Errorf_timeout :: "(int \<Rightarrow> string) \<Rightarrow> int \<Rightarrow> errval" where
  "Errorf_timeout dstr timeout = ErrorString (''operation timed out after '' @ dstr timeout)"

section \<open>The type Result and the synchronous combinators (result.go)\<close>

datatype State = Success | Failure

record 't Result =
  state :: State
  "value" :: 't
  fault :: goerror

text \<open>
  A composite literal leaves the fields it does not name at their zero value. The type
  arguments are explicit: \<open>E\<close> as its descriptor, \<open>T\<close> as its zero value \<open>zT\<close>.
\<close>

definition Ok :: "gotype \<Rightarrow> 't \<Rightarrow> 't Result" where
  "Ok E v = \<lparr>state = Success, value = v, fault = zeroE E\<rparr>"

definition Fail :: "'t \<Rightarrow> goerror \<Rightarrow> 't Result" where
  "Fail zT err = \<lparr>state = Failure, value = zT, fault = err\<rparr>"

definition Then :: "'t Result \<Rightarrow> ('t \<Rightarrow> 't Result outcome) \<Rightarrow> 't Result outcome" where
  "Then r fn = (if state r = Failure then Returns r else fn (value r))"

definition Map ::
  "gotype \<Rightarrow> 'u \<Rightarrow> 't Result \<Rightarrow> ('t \<Rightarrow> ('u \<times> goerror) outcome) \<Rightarrow> 'u Result outcome" where
  "Map E zU r fn =
     (if state r = Failure then Returns (Fail zU (fault r))
      else case fn (value r) of
             Returns (val, err) \<Rightarrow>
               if err \<noteq> None \<and> \<not> errors_Is err None then Returns (Fail zU err)
               else Returns (Ok E val)
           | Panics p \<Rightarrow> Panics p
           | NeverReturns \<Rightarrow> NeverReturns)"

definition OrElse :: "'t Result \<Rightarrow> 't \<Rightarrow> 't" where
  "OrElse r defaultVal = (if state r = Success then value r else defaultVal)"

definition Wrap :: "'t \<Rightarrow> 't Result \<Rightarrow> string \<Rightarrow> 't Result" where
  "Wrap zT r msg =
     (if state r = Failure then
        (let wrappedErr = Errorf_wrap msg (fault r) in Fail zT (Some wrappedErr))
      else Ok TError (value r))"

definition Unwrap :: "gotype \<Rightarrow> 't Result \<Rightarrow> goerror" where
  "Unwrap E r = (if state r = Failure then fault r else zeroE E)"

text \<open>
  The loop of \<open>All\<close>, with the slice \<open>values\<close> it appends to. The zero value of the slice
  type \<open>[]T\<close> is the nil slice, the empty list here.
\<close>

fun All_loop :: "gotype \<Rightarrow> 't list \<Rightarrow> 't Result list \<Rightarrow> 't list Result" where
  "All_loop E values [] = Ok E values"
| "All_loop E values (r # results) =
     (if state r = Failure then Fail [] (fault r)
      else All_loop E (values @ [value r]) results)"

definition All_results :: "gotype \<Rightarrow> 't Result list \<Rightarrow> 't list Result" where
  "All_results E results = All_loop E [] results"

definition UnwrapOrPanic :: "'t Result \<Rightarrow> 't outcome" where
  "UnwrapOrPanic r =
     (if state r = Failure then
        Panics (PanicString (''called UnwrapOrPanic on a Failure: '' @ fmt_v (fault r)))
      else Returns (value r))"

definition MapErr ::
  "'t \<Rightarrow> gotype \<Rightarrow> 't Result \<Rightarrow> (goerror \<Rightarrow> goerror outcome) \<Rightarrow> 't Result outcome" where
  "MapErr zT F r fn =
     (if state r = Failure then
        (case fn (fault r) of
           Returns f \<Rightarrow> Returns (Fail zT f)
         | Panics p \<Rightarrow> Panics p
         | NeverReturns \<Rightarrow> NeverReturns)
      else Returns (Ok F (value r)))"

section \<open>The combinators that consult a context (result_context.go)\<close>

text \<open>
  A \<open>context.Context\<close> as the package observes it: \<open>Err\<close> is what \<open>ctx.Err()\<close> returns when
  a combinator first asks, nil while the context is live. \<open>Done\<close> is for the asynchronous
  combinators, which go on to wait on \<open>ctx.Done()\<close>: \<open>None\<close> when that channel never
  becomes ready, \<open>Some c\<close> when it does, after which \<open>ctx.Err()\<close> returns the non-nil \<open>c\<close>.
\<close>

record Context =
  Err :: goerror
  Done :: "errval option"

definition Fail_asserted :: "gotype \<Rightarrow> 't \<Rightarrow> goerror \<Rightarrow> 't Result outcome" where
  \<comment> \<open>\<open>Fail[T, E](any(err).(E))\<close>\<close>
  "Fail_asserted E zT err =
     (case assertE E err of
        Returns e \<Rightarrow> Returns (Fail zT e)
      | Panics p \<Rightarrow> Panics p
      | NeverReturns \<Rightarrow> NeverReturns)"

definition ThenWithContext ::
  "gotype \<Rightarrow> 't \<Rightarrow> Context \<Rightarrow> 't Result \<Rightarrow> ('t \<Rightarrow> 't Result outcome) \<Rightarrow> 't Result outcome" where
  "ThenWithContext E zT ctx r fn =
     (if state r = Failure then Returns r
      else if Err ctx \<noteq> None then Fail_asserted E zT (Err ctx)
      else fn (value r))"

definition MapWithContext ::
  "gotype \<Rightarrow> 'u \<Rightarrow> Context \<Rightarrow> 't Result \<Rightarrow> ('t \<Rightarrow> ('u \<times> goerror) outcome) \<Rightarrow> 'u Result outcome" where
  "MapWithContext E zU ctx r fn =
     (if state r = Failure then Returns (Fail zU (fault r))
      else if Err ctx \<noteq> None then Fail_asserted E zU (Err ctx)
      else case fn (value r) of
             Returns (val, err) \<Rightarrow>
               if err \<noteq> None \<and> \<not> errors_Is err None then Returns (Fail zU err)
               else Returns (Ok E val)
           | Panics p \<Rightarrow> Panics p
           | NeverReturns \<Rightarrow> NeverReturns)"

section \<open>The asynchronous combinators\<close>

text \<open>
  Each asynchronous combinator makes a channel \<open>ch\<close> with room for one value, starts a
  goroutine and returns \<open>ch\<close>. What the caller can observe is the history of \<open>ch\<close>: the
  values sent on it, in order, and whether it has been closed. The model gives that
  history once the goroutine has run as far as it ever will, and how the goroutine ended:
  it left its function, it is blocked for ever, it panicked (its deferred calls run, then
  the program stops), or the program was stopped by a panic of another goroutine (no
  deferred call of this one runs).
\<close>

record 'a chan =
  sent :: "'a list"
  closed :: bool

datatype ending = Exited | Blocked | Panicked panic | Killed panic

definition make_chan :: "'a chan" where
  "make_chan = \<lparr>sent = [], closed = False\<rparr>"

text \<open>
  \<open>ch <- expr\<close> as the last statement of a goroutine, \<open>out\<close> being the outcome of
  evaluating \<open>expr\<close>. No goroutine here sends twice, so the one free slot of \<open>ch\<close> takes
  the value without blocking.
\<close>

definition deliver :: "'a outcome \<Rightarrow> 'a chan \<Rightarrow> 'a chan \<times> ending" where
  "deliver out ch =
     (case out of
        Returns x \<Rightarrow> (ch\<lparr>sent := sent ch @ [x]\<rparr>, Exited)
      | Panics p \<Rightarrow> (ch, Panicked p)
      | NeverReturns \<Rightarrow> (ch, Blocked))"

text \<open>\<open>defer close(ch)\<close>: runs when the goroutine leaves its function or panics.\<close>

definition defer_close :: "('a chan \<Rightarrow> 'a chan \<times> ending) \<Rightarrow> 'a chan \<Rightarrow> 'a chan \<times> ending" where
  "defer_close body ch =
     (case body ch of
        (ch', Exited) \<Rightarrow> (ch'\<lparr>closed := True\<rparr>, Exited)
      | (ch', Panicked p) \<Rightarrow> (ch'\<lparr>closed := True\<rparr>, Panicked p)
      | (ch', Blocked) \<Rightarrow> (ch', Blocked)
      | (ch', Killed p) \<Rightarrow> (ch', Killed p))"

text \<open>
  The \<open>select\<close> between the channel \<open>resultChan\<close>, fed by an inner goroutine that runs
  \<open>r.Then(fn)\<close>, and a signal (a timer or the \<open>Done\<close> channel of a context). \<open>signal\<close> is
  \<open>None\<close> when the signal never comes. Which of two events the \<open>select\<close> sees first is
  not decided by the program; the schedule says it: \<open>signal_first\<close> puts the signal before
  the end of the inner goroutine, and \<open>parent_first\<close> (for the combinator that derives a
  context with a timeout) puts the end of the parent context before the timer. Every
  schedule is allowed, whatever the durations are.
\<close>

record sched =
  signal_first :: bool
  parent_first :: bool

datatype ('r, 'c) selected = Received 'r | Signaled 'c | SelectBlocked | ProgramCrashed panic

fun select2 :: "sched \<Rightarrow> 'r outcome \<Rightarrow> 'c option \<Rightarrow> ('r, 'c) selected" where
  "select2 s (Returns res) (Some c) = (if signal_first s then Signaled c else Received res)"
| "select2 s (Returns res) None = Received res"
| "select2 s NeverReturns (Some c) = Signaled c"
| "select2 s NeverReturns None = SelectBlocked"
| "select2 s (Panics p) (Some c) = (if signal_first s then Signaled c else ProgramCrashed p)"
| "select2 s (Panics p) None = ProgramCrashed p"

type_synonym 't async = "'t Result chan \<times> ending"

definition AsyncThen :: "'t Result \<Rightarrow> ('t \<Rightarrow> 't Result outcome) \<Rightarrow> 't async" where
  "AsyncThen r fn = defer_close (deliver (Then r fn)) make_chan"

definition AsyncThenWithTimeout ::
  "gotype \<Rightarrow> 't \<Rightarrow> (int \<Rightarrow> string) \<Rightarrow> sched \<Rightarrow>
   't Result \<Rightarrow> ('t \<Rightarrow> 't Result outcome) \<Rightarrow> int \<Rightarrow> 't async" where
  "AsyncThenWithTimeout E zT dstr s r fn timeout =
     defer_close (\<lambda>ch.
       case select2 s (Then r fn) (Some ()) of
         Received result \<Rightarrow> deliver (Returns result) ch
       | Signaled u \<Rightarrow>
           (let err = Errorf_timeout dstr timeout
            in deliver (Fail_asserted E zT (Some err)) ch)
       | SelectBlocked \<Rightarrow> (ch, Blocked)
       | ProgramCrashed p \<Rightarrow> (ch, Killed p)) make_chan"

definition AsyncThenWithContext ::
  "gotype \<Rightarrow> 't \<Rightarrow> sched \<Rightarrow> Context \<Rightarrow>
   't Result \<Rightarrow> ('t \<Rightarrow> 't Result outcome) \<Rightarrow> 't async" where
  "AsyncThenWithContext E zT s ctx r fn =
     defer_close (\<lambda>ch.
       if Err ctx \<noteq> None then deliver (Fail_asserted E zT (Err ctx)) ch
       else
         case select2 s (Then r fn) (Done ctx) of
           Received result \<Rightarrow> deliver (Returns result) ch
         | Signaled c \<Rightarrow> deliver (Fail_asserted E zT (Some c)) ch
         | SelectBlocked \<Rightarrow> (ch, Blocked)
         | ProgramCrashed p \<Rightarrow> (ch, Killed p)) make_chan"

text \<open>
  \<open>context.WithTimeout(ctx, timeout)\<close>: the derived context is done when the parent is
  done or when the timer fires, whichever is first; its \<open>Err()\<close> is then the parent's
  cause or \<open>context.DeadlineExceeded\<close>.
\<close>

definition WithTimeout_cause :: "sched \<Rightarrow> Context \<Rightarrow> errval" where
  "WithTimeout_cause s ctx =
     (case Done ctx of
        Some c \<Rightarrow> if parent_first s then c else DeadlineExceeded
      | None \<Rightarrow> DeadlineExceeded)"

definition AsyncThenWithContextAndTimeout ::
  "gotype \<Rightarrow> 't \<Rightarrow> (int \<Rightarrow> string) \<Rightarrow> sched \<Rightarrow> Context \<Rightarrow>
   't Result \<Rightarrow> ('t \<Rightarrow> 't Result outcome) \<Rightarrow> int \<Rightarrow> 't async" where
  "AsyncThenWithContextAndTimeout E zT dstr s ctx r fn timeout =
     defer_close (\<lambda>ch.
       if Err ctx \<noteq> None then deliver (Fail_asserted E zT (Err ctx)) ch
       else
         case select2 s (Then r fn) (Some (WithTimeout_cause s ctx)) of
           Received result \<Rightarrow> deliver (Returns result) ch
         | Signaled c \<Rightarrow>
             (let err = (if errors_Is (Some c) (Some DeadlineExceeded)
                         then Errorf_timeout dstr timeout else c)
              in deliver (Fail_asserted E zT (Some err)) ch)
         | SelectBlocked \<Rightarrow> (ch, Blocked)
         | ProgramCrashed p \<Rightarrow> (ch, Killed p)) make_chan"

text \<open>The channel got exactly one value and was then closed, and the goroutine is gone.\<close>

definition delivered_once :: "'t async \<Rightarrow> bool" where
  "delivered_once a = (length (sent (fst a)) = 1 \<and> closed (fst a) \<and> snd a = Exited)"

section \<open>The invariant of the data model\<close>

definition inv :: "gotype \<Rightarrow> 't \<Rightarrow> 't Result \<Rightarrow> bool" where
  "inv E zT r =
     ((state r = Success \<longrightarrow> fault r = zeroE E) \<and> (state r = Failure \<longrightarrow> value r = zT))"

section \<open>Then\<close>

text \<open>
  C4. \<open>Then\<close> returns a Failure input as it is, whatever the continuation is (it is not
  invoked: a continuation that panics or never returns changes nothing), and on a
  Success input its outcome is the outcome of the continuation at the held value, with
  nothing wrapped around it.
\<close>

theorem Then_bind:
  "(state r = Failure \<longrightarrow> (\<forall>fn. Then r fn = Returns r))
   \<and> (state r = Success \<longrightarrow> Then r fn = fn (value r))"
  by (simp add: Then_def)

theorem Then_bind_witness:
  "(\<forall>fn. Then (Fail (0::int) (Some (ErrorString ''boom''))) fn
          = Returns (Fail 0 (Some (ErrorString ''boom''))))
   \<and> Then (Ok TError (5::int)) (\<lambda>x. Returns (Ok TError (x * 2))) = Returns (Ok TError 10)"
  using Then_bind [of "Fail (0::int) (Some (ErrorString ''boom''))"]
        Then_bind [of "Ok TError (5::int)" "\<lambda>x. Returns (Ok TError (x * 2))"]
  by (simp add: Ok_def Fail_def)

text \<open>
  C10. Chaining with the success constructor changes nothing: \<open>r.Then(Ok)\<close> is \<open>r\<close>, with its
  discriminant, value and fault, for every Result that satisfies the invariant of the data
  model (a Success holds the zero fault). The fields of a Result are not exported, so
  these are the Results a program can hold.
\<close>

theorem Then_Ok_right_identity:
  "inv E zT r \<Longrightarrow> Then r (\<lambda>v. Returns (Ok E v)) = Returns r"
  by (cases "state r") (simp_all add: Then_def Ok_def inv_def)

theorem Then_Ok_right_identity_witness:
  "inv TError (0::int) (Ok TError 42) \<and> inv TError (0::int) (Fail 0 (Some (ErrorString ''boom'')))
   \<and> Then (Ok TError (42::int)) (\<lambda>v. Returns (Ok TError v)) = Returns (Ok TError 42)
   \<and> Then (Fail (0::int) (Some (ErrorString ''boom''))) (\<lambda>v. Returns (Ok TError v))
       = Returns (Fail 0 (Some (ErrorString ''boom'')))"
proof -
  have a: "inv TError (0::int) (Ok TError 42)" by (simp add: inv_def Ok_def)
  have b: "inv TError (0::int) (Fail 0 (Some (ErrorString ''boom'')))"
    by (simp add: inv_def Fail_def)
  show ?thesis
    using a b Then_Ok_right_identity [OF a] Then_Ok_right_identity [OF b] by simp
qed

section \<open>All\<close>

lemma All_loop_all_success:
  "\<forall>r \<in> set results. state r = Success \<Longrightarrow>
   All_loop E acc results = Ok E (acc @ map value results)"
  by (induction results arbitrary: acc) simp_all

lemma All_loop_first_failure:
  "\<forall>r \<in> set pre. state r = Success \<Longrightarrow> state f = Failure \<Longrightarrow>
   All_loop E acc (pre @ f # post) = Fail [] (fault f)"
  by (induction pre arbitrary: acc) simp_all

text \<open>
  C5. \<open>All\<close> scans from the left. When the elements before some Failure are Successes, it
  returns a Failure with the fault of that element, whatever follows it. When all
  elements are Successes (the empty sequence too), it returns a Success with their
  values in the order of the input.
\<close>

theorem All_first_failure_or_all_values:
  "((\<forall>r \<in> set pre. state r = Success) \<and> state f = Failure
      \<longrightarrow> All_results E (pre @ f # post) = Fail [] (fault f))
   \<and> ((\<forall>r \<in> set results. state r = Success)
      \<longrightarrow> All_results E results = Ok E (map value results))"
  by (simp add: All_results_def All_loop_all_success All_loop_first_failure)

theorem All_first_failure_or_all_values_witness:
  "All_results TError [Ok TError (1::int), Fail 0 (Some (ErrorString ''err'')), Ok TError 3,
                       Fail 0 (Some (ErrorString ''late''))]
     = Fail [] (Some (ErrorString ''err''))
   \<and> All_results TError [Ok TError (1::int), Ok TError 2, Ok TError 3] = Ok TError [1, 2, 3]
   \<and> All_results TError ([] :: int Result list) = Ok TError []"
  using All_first_failure_or_all_values
          [of "[Ok TError (1::int)]" "Fail 0 (Some (ErrorString ''err''))" TError
              "[Ok TError 3, Fail 0 (Some (ErrorString ''late''))]"
              "[Ok TError (1::int), Ok TError 2, Ok TError 3]"]
        All_first_failure_or_all_values
          [of "[]" "Fail (0::int) None" TError "[]" "[] :: int Result list"]
  by (simp add: Ok_def Fail_def)

section \<open>UnwrapOrPanic\<close>

text \<open>
  C7. \<open>UnwrapOrPanic\<close> returns the held value of a Success; on a Failure, and only then,
  it panics and returns nothing, with the message
  \<open>called UnwrapOrPanic on a Failure: \<close> followed by the fault as \<open>%v\<close> prints it.
\<close>

theorem UnwrapOrPanic_value_or_panic:
  "(state r = Success \<longrightarrow> UnwrapOrPanic r = Returns (value r))
   \<and> (state r = Failure \<longrightarrow>
        UnwrapOrPanic r
          = Panics (PanicString (''called UnwrapOrPanic on a Failure: '' @ fmt_v (fault r))))
   \<and> ((\<exists>p. UnwrapOrPanic r = Panics p) \<longleftrightarrow> state r = Failure)
   \<and> ((\<exists>v. UnwrapOrPanic r = Returns v) \<longleftrightarrow> state r = Success)"
  by (cases "state r") (simp_all add: UnwrapOrPanic_def)

theorem UnwrapOrPanic_value_or_panic_witness:
  "UnwrapOrPanic (Ok TError (42::int)) = Returns 42
   \<and> UnwrapOrPanic (Fail (0::int) (Some (ErrorString ''test error'')))
       = Panics (PanicString ''called UnwrapOrPanic on a Failure: test error'')"
  using UnwrapOrPanic_value_or_panic [of "Ok TError (42::int)"]
        UnwrapOrPanic_value_or_panic [of "Fail (0::int) (Some (ErrorString ''test error''))"]
  by (simp add: Ok_def Fail_def)

section \<open>Wrap\<close>

lemma is_chain_refl: "is_chain e e"
  by (cases e) simp_all




section \<open>Map\<close>

lemma Map_on_error_interface:
  "(state r = Failure \<longrightarrow> (\<forall>fn. Map TError zU r fn = Returns (Fail zU (fault r))))
   \<and> (state r = Success \<and> fn (value r) = Returns (val, err) \<longrightarrow>
        Map TError zU r fn
          = (if err \<noteq> zeroE TError then Returns (Fail zU err) else Returns (Ok TError val)))"
  by (cases err) (simp_all add: Map_def)

lemma Map_on_pointer_type:
  "state r = Success \<Longrightarrow> fn (value r) = Returns (val, err) \<Longrightarrow> hasType (TPtr n) err \<Longrightarrow>
   Map (TPtr n) zU r fn = Returns (Fail zU err)"
  by (cases err) (simp_all add: Map_def)

text \<open>
  C1. On a Success, \<open>Map\<close> should yield a Failure exactly when the error that the
  continuation reports is not the zero value of \<open>E\<close>. For \<open>E = error\<close> it does
  (\<open>Map_on_error_interface\<close>). For a pointer type it yields a Failure on every error
  (\<open>Map_on_pointer_type\<close>), the zero value included: with \<open>E = *MyErr\<close>, the Success
  \<open>Ok(5)\<close> and a continuation that returns \<open>(x + 1, nil)\<close>, the test
  \<open>any(err) != nil && !errors.Is(err, nil)\<close> holds of the nil pointer, and \<open>Map\<close> returns the
  Failure that holds the nil pointer where \<open>Ok(6)\<close> is due.
\<close>

theorem Map_nil_pointer_error_is_Failure:
  "Map (TPtr ''MyErr'') (0::int) (Ok (TPtr ''MyErr'') (5::int))
       (\<lambda>x. Returns (x + 1, zeroE (TPtr ''MyErr'')))
     = Returns (Fail 0 (zeroE (TPtr ''MyErr'')))
   \<and> Fail (0::int) (zeroE (TPtr ''MyErr'')) \<noteq> Ok (TPtr ''MyErr'') 6"
  by (simp add: Map_def Ok_def Fail_def)

section \<open>ThenWithContext and MapWithContext\<close>

lemma Fail_asserted_error:
  "Fail_asserted TError zT (Some c) = Returns (Fail zT (Some c))"
  by (simp add: Fail_asserted_def)

lemma ThenWithContext_on_error_interface:
  "(state r = Failure \<longrightarrow> (\<forall>ctx fn. ThenWithContext TError zT ctx r fn = Returns r))
   \<and> (state r = Success \<and> Err ctx = Some c \<longrightarrow>
        (\<forall>fn. ThenWithContext TError zT ctx r fn = Returns (Fail zT (Some c))))
   \<and> (state r = Success \<and> Err ctx = None \<longrightarrow>
        ThenWithContext TError zT ctx r fn = fn (value r))"
  by (simp add: ThenWithContext_def Fail_asserted_error)

lemma MapWithContext_on_error_interface:
  "(state r = Failure \<longrightarrow>
      (\<forall>ctx fn. MapWithContext TError zU ctx r fn = Returns (Fail zU (fault r))))
   \<and> (state r = Success \<and> Err ctx = Some c \<longrightarrow>
        (\<forall>fn. MapWithContext TError zU ctx r fn = Returns (Fail zU (Some c))))
   \<and> (state r = Success \<and> Err ctx = None \<longrightarrow>
        MapWithContext TError zU ctx r fn = Map TError zU r fn)"
  by (simp add: MapWithContext_def Map_def Fail_asserted_error)

text \<open>
  C2. \<open>ThenWithContext\<close> and \<open>MapWithContext\<close> hand a Failure on without a look at the context
  or the continuation; on a Success with a signaled context they are to return a Failure
  with the cause, and otherwise they run the continuation. For \<open>E = error\<close> they do all of
  it (\<open>ThenWithContext_on_error_interface\<close>, \<open>MapWithContext_on_error_interface\<close>). For
  \<open>E = *MyErr\<close>, the Success \<open>Ok(1)\<close> and a canceled context, the conversion \<open>any(err).(E)\<close>
  of the cause panics, and no Failure is returned.
\<close>

theorem ThenWithContext_pointer_type_panics:
  "ThenWithContext (TPtr ''MyErr'') (0::int) \<lparr>Err = Some Canceled, Done = Some Canceled\<rparr>
       (Ok (TPtr ''MyErr'') 1) (\<lambda>x. Returns (Ok (TPtr ''MyErr'') x))
     = Panics (TypeAssertionError (Some Canceled) (TPtr ''MyErr''))
   \<and> MapWithContext (TPtr ''MyErr'') (0::int) \<lparr>Err = Some Canceled, Done = Some Canceled\<rparr>
       (Ok (TPtr ''MyErr'') (1::int)) (\<lambda>x. Returns (x, zeroE (TPtr ''MyErr'')))
     = Panics (TypeAssertionError (Some Canceled) (TPtr ''MyErr''))"
  by (simp add: ThenWithContext_def MapWithContext_def Fail_asserted_def Ok_def Canceled_def)

section \<open>The conversion of a cause to the error type\<close>

lemmas async_defs =
  AsyncThen_def AsyncThenWithTimeout_def AsyncThenWithContext_def
  AsyncThenWithContextAndTimeout_def defer_close_def deliver_def make_chan_def

lemma assertE_total_iff: "(\<forall>c. \<exists>e. assertE E (Some c) = Returns e) \<longleftrightarrow> E = TError"
proof (cases E)
  case TError
  then show ?thesis by simp
next
  case (TPtr n)
  have "assertE (TPtr n) (Some DeadlineExceededError) \<noteq> Returns e" for e
    by simp
  with TPtr show ?thesis by blast
qed

lemma sync_abort:
  assumes "user_type c \<noteq> Some n" and "state r = Success" and "Err ctx = Some c"
  shows "ThenWithContext (TPtr n) zT ctx r fn = Panics (TypeAssertionError (Some c) (TPtr n))"
    and "MapWithContext (TPtr n) zU ctx r fm = Panics (TypeAssertionError (Some c) (TPtr n))"
    and "ThenWithContext TError zT ctx r fn = Returns (Fail zT (Some c))"
    and "MapWithContext TError zU ctx r fm = Returns (Fail zU (Some c))"
  using assms
  by (simp_all add: ThenWithContext_def MapWithContext_def Fail_asserted_def)

lemma timeout_abort:
  assumes "signal_first s \<or> Then r fn = NeverReturns"
  shows "AsyncThenWithTimeout (TPtr n) zT dstr s r fn t
           = (\<lparr>sent = [], closed = True\<rparr>,
              Panicked (TypeAssertionError (Some (Errorf_timeout dstr t)) (TPtr n)))"
    and "AsyncThenWithTimeout TError zT dstr s r fn t
           = (\<lparr>sent = [Fail zT (Some (Errorf_timeout dstr t))], closed = True\<rparr>, Exited)"
proof -
  have sel: "select2 s (Then r fn) (Some ()) = Signaled ()"
    using assms by (cases "Then r fn") auto
  show "AsyncThenWithTimeout (TPtr n) zT dstr s r fn t
           = (\<lparr>sent = [], closed = True\<rparr>,
              Panicked (TypeAssertionError (Some (Errorf_timeout dstr t)) (TPtr n)))"
    by (simp add: async_defs sel Fail_asserted_def Errorf_timeout_def)
  show "AsyncThenWithTimeout TError zT dstr s r fn t
           = (\<lparr>sent = [Fail zT (Some (Errorf_timeout dstr t))], closed = True\<rparr>, Exited)"
    by (simp add: async_defs sel Fail_asserted_def)
qed

lemma context_abort_at_start:
  assumes "user_type c \<noteq> Some n" and "Err ctx = Some c"
  shows "AsyncThenWithContext (TPtr n) zT s ctx r fn
           = (\<lparr>sent = [], closed = True\<rparr>, Panicked (TypeAssertionError (Some c) (TPtr n)))"
    and "AsyncThenWithContextAndTimeout (TPtr n) zT dstr s ctx r fn t
           = (\<lparr>sent = [], closed = True\<rparr>, Panicked (TypeAssertionError (Some c) (TPtr n)))"
    and "AsyncThenWithContext TError zT s ctx r fn
           = (\<lparr>sent = [Fail zT (Some c)], closed = True\<rparr>, Exited)"
    and "AsyncThenWithContextAndTimeout TError zT dstr s ctx r fn t
           = (\<lparr>sent = [Fail zT (Some c)], closed = True\<rparr>, Exited)"
  using assms by (simp_all add: async_defs Fail_asserted_def)

lemma context_abort_in_select:
  assumes "user_type c \<noteq> Some n" and "Err ctx = None" and "Done ctx = Some c"
    and "signal_first s \<or> Then r fn = NeverReturns"
  shows "AsyncThenWithContext (TPtr n) zT s ctx r fn
           = (\<lparr>sent = [], closed = True\<rparr>, Panicked (TypeAssertionError (Some c) (TPtr n)))"
    and "AsyncThenWithContext TError zT s ctx r fn
           = (\<lparr>sent = [Fail zT (Some c)], closed = True\<rparr>, Exited)"
proof -
  have sel: "select2 s (Then r fn) (Some c) = Signaled c"
    using assms(4) by (cases "Then r fn") auto
  show "AsyncThenWithContext (TPtr n) zT s ctx r fn
           = (\<lparr>sent = [], closed = True\<rparr>, Panicked (TypeAssertionError (Some c) (TPtr n)))"
    using assms(1-3) by (simp add: async_defs sel Fail_asserted_def)
  show "AsyncThenWithContext TError zT s ctx r fn
           = (\<lparr>sent = [Fail zT (Some c)], closed = True\<rparr>, Exited)"
    using assms(1-3) by (simp add: async_defs sel Fail_asserted_def)
qed

lemma context_timeout_abort_in_select:
  assumes "Err ctx = None" and "Done ctx = None"
    and "signal_first s \<or> Then r fn = NeverReturns"
  shows "AsyncThenWithContextAndTimeout (TPtr n) zT dstr s ctx r fn t
           = (\<lparr>sent = [], closed = True\<rparr>,
              Panicked (TypeAssertionError (Some (Errorf_timeout dstr t)) (TPtr n)))"
    and "AsyncThenWithContextAndTimeout TError zT dstr s ctx r fn t
           = (\<lparr>sent = [Fail zT (Some (Errorf_timeout dstr t))], closed = True\<rparr>, Exited)"
proof -
  have cause: "WithTimeout_cause s ctx = DeadlineExceeded"
    using assms(2) by (simp add: WithTimeout_cause_def)
  have sel: "select2 s (Then r fn) (Some DeadlineExceeded) = Signaled DeadlineExceeded"
    using assms(3) by (cases "Then r fn") auto
  have ut: "user_type (Errorf_timeout dstr t) = None"
    by (simp add: Errorf_timeout_def)
  show "AsyncThenWithContextAndTimeout (TPtr n) zT dstr s ctx r fn t
           = (\<lparr>sent = [], closed = True\<rparr>,
              Panicked (TypeAssertionError (Some (Errorf_timeout dstr t)) (TPtr n)))"
    using assms(1)
    by (simp add: async_defs cause sel is_chain_refl Fail_asserted_def ut)
  show "AsyncThenWithContextAndTimeout TError zT dstr s ctx r fn t
           = (\<lparr>sent = [Fail zT (Some (Errorf_timeout dstr t))], closed = True\<rparr>, Exited)"
    using assms(1)
    by (simp add: async_defs cause sel is_chain_refl Fail_asserted_def)
qed

text \<open>
  C3. Take for \<open>E\<close> any pointer type \<open>*n\<close> of a caller's struct, which is not the interface
  \<open>error\<close>, and any cause \<open>c\<close> whose dynamic type is not \<open>*n\<close> (every cause that the
  packages \<open>context\<close> and \<open>fmt\<close> make is one). Then each of the five combinators, once it
  reaches the branch that builds a Failure from the cause, panics at the type assertion
  \<open>any(err).(E)\<close>: the synchronous ones return nothing, the asynchronous ones deliver
  nothing on their channel. With \<open>E = error\<close> the same branch gives the Failure that holds
  the cause. The assertion itself succeeds on every non-nil cause exactly when \<open>E\<close> is
  \<open>error\<close>, among the types \<open>E\<close> of the model.
\<close>

theorem cause_conversion_aborts_unless_generic_error:
  assumes c: "user_type c \<noteq> Some n"
  shows
    "TPtr n \<noteq> TError
     \<and> ((\<forall>x. \<exists>e. assertE E (Some x) = Returns e) \<longleftrightarrow> E = TError)
     \<and> (state r = Success \<and> Err ctx = Some c \<longrightarrow>
          ThenWithContext (TPtr n) zT ctx r fn = Panics (TypeAssertionError (Some c) (TPtr n))
        \<and> MapWithContext (TPtr n) zU ctx r fm = Panics (TypeAssertionError (Some c) (TPtr n))
        \<and> ThenWithContext TError zT ctx r fn = Returns (Fail zT (Some c))
        \<and> MapWithContext TError zU ctx r fm = Returns (Fail zU (Some c)))
     \<and> (signal_first s \<or> Then r fn = NeverReturns \<longrightarrow>
          AsyncThenWithTimeout (TPtr n) zT dstr s r fn t
            = (\<lparr>sent = [], closed = True\<rparr>,
               Panicked (TypeAssertionError (Some (Errorf_timeout dstr t)) (TPtr n)))
        \<and> AsyncThenWithTimeout TError zT dstr s r fn t
            = (\<lparr>sent = [Fail zT (Some (Errorf_timeout dstr t))], closed = True\<rparr>, Exited))
     \<and> (Err ctx = Some c
          \<or> Err ctx = None \<and> Done ctx = Some c
             \<and> (signal_first s \<or> Then r fn = NeverReturns) \<longrightarrow>
          AsyncThenWithContext (TPtr n) zT s ctx r fn
            = (\<lparr>sent = [], closed = True\<rparr>, Panicked (TypeAssertionError (Some c) (TPtr n)))
        \<and> AsyncThenWithContext TError zT s ctx r fn
            = (\<lparr>sent = [Fail zT (Some c)], closed = True\<rparr>, Exited))
     \<and> (Err ctx = Some c \<longrightarrow>
          AsyncThenWithContextAndTimeout (TPtr n) zT dstr s ctx r fn t
            = (\<lparr>sent = [], closed = True\<rparr>, Panicked (TypeAssertionError (Some c) (TPtr n)))
        \<and> AsyncThenWithContextAndTimeout TError zT dstr s ctx r fn t
            = (\<lparr>sent = [Fail zT (Some c)], closed = True\<rparr>, Exited))
     \<and> (Err ctx = None \<and> Done ctx = None
          \<and> (signal_first s \<or> Then r fn = NeverReturns) \<longrightarrow>
          AsyncThenWithContextAndTimeout (TPtr n) zT dstr s ctx r fn t
            = (\<lparr>sent = [], closed = True\<rparr>,
               Panicked (TypeAssertionError (Some (Errorf_timeout dstr t)) (TPtr n)))
        \<and> AsyncThenWithContextAndTimeout TError zT dstr s ctx r fn t
            = (\<lparr>sent = [Fail zT (Some (Errorf_timeout dstr t))], closed = True\<rparr>, Exited))"
proof (intro conjI impI)
  show "TPtr n \<noteq> TError" by simp
  show "(\<forall>x. \<exists>e. assertE E (Some x) = Returns e) \<longleftrightarrow> E = TError"
    by (rule assertE_total_iff)
next
  assume a: "state r = Success \<and> Err ctx = Some c"
  then have s: "state r = Success" and e: "Err ctx = Some c" by simp_all
  show "ThenWithContext (TPtr n) zT ctx r fn = Panics (TypeAssertionError (Some c) (TPtr n))"
    by (rule sync_abort(1) [OF c s e])
  show "MapWithContext (TPtr n) zU ctx r fm = Panics (TypeAssertionError (Some c) (TPtr n))"
    by (rule sync_abort(2) [OF c s e])
  show "ThenWithContext TError zT ctx r fn = Returns (Fail zT (Some c))"
    by (rule sync_abort(3) [OF c s e])
  show "MapWithContext TError zU ctx r fm = Returns (Fail zU (Some c))"
    by (rule sync_abort(4) [OF c s e])
next
  assume a: "signal_first s \<or> Then r fn = NeverReturns"
  show "AsyncThenWithTimeout (TPtr n) zT dstr s r fn t
            = (\<lparr>sent = [], closed = True\<rparr>,
               Panicked (TypeAssertionError (Some (Errorf_timeout dstr t)) (TPtr n)))"
    by (rule timeout_abort(1) [OF a])
  show "AsyncThenWithTimeout TError zT dstr s r fn t
            = (\<lparr>sent = [Fail zT (Some (Errorf_timeout dstr t))], closed = True\<rparr>, Exited)"
    by (rule timeout_abort(2) [OF a])
next
  assume a: "Err ctx = Some c
          \<or> Err ctx = None \<and> Done ctx = Some c
             \<and> (signal_first s \<or> Then r fn = NeverReturns)"
  show "AsyncThenWithContext (TPtr n) zT s ctx r fn
            = (\<lparr>sent = [], closed = True\<rparr>, Panicked (TypeAssertionError (Some c) (TPtr n)))"
  proof (cases "Err ctx = Some c")
    case True
    then show ?thesis by (rule context_abort_at_start(1) [OF c])
  next
    case False
    with a show ?thesis by (intro context_abort_in_select(1) [OF c]) simp_all
  qed
  show "AsyncThenWithContext TError zT s ctx r fn
            = (\<lparr>sent = [Fail zT (Some c)], closed = True\<rparr>, Exited)"
  proof (cases "Err ctx = Some c")
    case True
    then show ?thesis by (rule context_abort_at_start(3) [OF c])
  next
    case False
    with a show ?thesis by (intro context_abort_in_select(2) [OF c]) simp_all
  qed
next
  assume a: "Err ctx = Some c"
  show "AsyncThenWithContextAndTimeout (TPtr n) zT dstr s ctx r fn t
            = (\<lparr>sent = [], closed = True\<rparr>, Panicked (TypeAssertionError (Some c) (TPtr n)))"
    by (rule context_abort_at_start(2) [OF c a])
  show "AsyncThenWithContextAndTimeout TError zT dstr s ctx r fn t
            = (\<lparr>sent = [Fail zT (Some c)], closed = True\<rparr>, Exited)"
    by (rule context_abort_at_start(4) [OF c a])
next
  assume a: "Err ctx = None \<and> Done ctx = None
          \<and> (signal_first s \<or> Then r fn = NeverReturns)"
  then have a1: "Err ctx = None" and a2: "Done ctx = None"
    and a3: "signal_first s \<or> Then r fn = NeverReturns" by simp_all
  show "AsyncThenWithContextAndTimeout (TPtr n) zT dstr s ctx r fn t
            = (\<lparr>sent = [], closed = True\<rparr>,
               Panicked (TypeAssertionError (Some (Errorf_timeout dstr t)) (TPtr n)))"
    by (rule context_timeout_abort_in_select(1) [OF a1 a2 a3])
  show "AsyncThenWithContextAndTimeout TError zT dstr s ctx r fn t
            = (\<lparr>sent = [Fail zT (Some (Errorf_timeout dstr t))], closed = True\<rparr>, Exited)"
    by (rule context_timeout_abort_in_select(2) [OF a1 a2 a3])
qed


theorem cause_conversion_aborts_unless_generic_error_witness:
  "ThenWithContext (TPtr ''MyErr'') (0::int) \<lparr>Err = Some DeadlineExceeded, Done = None\<rparr>
       (Ok (TPtr ''MyErr'') 1) (\<lambda>x. NeverReturns)
     = Panics (TypeAssertionError (Some DeadlineExceeded) (TPtr ''MyErr''))
   \<and> MapWithContext (TPtr ''MyErr'') ''zero'' \<lparr>Err = Some DeadlineExceeded, Done = None\<rparr>
       (Ok (TPtr ''MyErr'') (1::int)) (\<lambda>x. Returns (''one'', None))
     = Panics (TypeAssertionError (Some DeadlineExceeded) (TPtr ''MyErr''))
   \<and> AsyncThenWithTimeout (TPtr ''MyErr'') (0::int) (\<lambda>d. ''50ms'')
       \<lparr>signal_first = False, parent_first = False\<rparr>
       (Ok (TPtr ''MyErr'') 1) (\<lambda>x. NeverReturns) 50000000
     = (\<lparr>sent = [], closed = True\<rparr>,
        Panicked (TypeAssertionError (Some (ErrorString ''operation timed out after 50ms''))
                   (TPtr ''MyErr'')))
   \<and> AsyncThenWithContext (TPtr ''MyErr'') (0::int) \<lparr>signal_first = False, parent_first = False\<rparr>
       \<lparr>Err = Some DeadlineExceeded, Done = None\<rparr>
       (Ok (TPtr ''MyErr'') 1) (\<lambda>x. NeverReturns)
     = (\<lparr>sent = [], closed = True\<rparr>,
        Panicked (TypeAssertionError (Some DeadlineExceeded) (TPtr ''MyErr'')))
   \<and> AsyncThenWithContextAndTimeout (TPtr ''MyErr'') (0::int) (\<lambda>d. ''50ms'')
       \<lparr>signal_first = False, parent_first = False\<rparr> \<lparr>Err = None, Done = None\<rparr>
       (Ok (TPtr ''MyErr'') 1) (\<lambda>x. NeverReturns) 50000000
     = (\<lparr>sent = [], closed = True\<rparr>,
        Panicked (TypeAssertionError (Some (ErrorString ''operation timed out after 50ms''))
                   (TPtr ''MyErr'')))
   \<and> ThenWithContext TError (0::int) \<lparr>Err = Some DeadlineExceeded, Done = None\<rparr>
       (Ok TError 1) (\<lambda>x. Returns (Ok TError x))
     = Returns (Fail 0 (Some DeadlineExceeded))"
proof -
  have c: "user_type DeadlineExceeded \<noteq> Some ''MyErr''"
    by (simp add: DeadlineExceeded_def)
  note inst = cause_conversion_aborts_unless_generic_error
            [OF c, where E = TError and zT = "0::int" and zU = "''zero''"
              and fm = "\<lambda>x::int. Returns (''one'', None)"
              and s = "\<lparr>signal_first = False, parent_first = False\<rparr>"
              and dstr = "\<lambda>d. ''50ms''" and t = 50000000]
  show ?thesis
    using inst [where r = "Ok (TPtr ''MyErr'') 1"
              and ctx = "\<lparr>Err = Some DeadlineExceeded, Done = None\<rparr>"
              and fn = "\<lambda>x. NeverReturns"]
          inst [where r = "Ok (TPtr ''MyErr'') 1"
              and ctx = "\<lparr>Err = None, Done = None\<rparr>"
              and fn = "\<lambda>x. NeverReturns"]
          inst [where r = "Ok TError 1"
              and ctx = "\<lparr>Err = Some DeadlineExceeded, Done = None\<rparr>"
              and fn = "\<lambda>x. Returns (Ok TError x)"]
    by (simp add: Ok_def Then_def Errorf_timeout_def)
qed

section \<open>Every Result satisfies the invariant\<close>

lemma inv_Ok: "inv E zT (Ok E v)"
  by (simp add: inv_def Ok_def)

lemma inv_Fail: "inv E zT (Fail zT e)"
  by (simp add: inv_def Fail_def)

lemma inv_Fail_asserted: "Fail_asserted E zT x = Returns res \<Longrightarrow> inv E zT res"
  by (auto simp: Fail_asserted_def inv_Fail split: outcome.splits)

lemma inv_Then:
  "inv E zT r \<Longrightarrow> \<forall>v res. fn v = Returns res \<longrightarrow> inv E zT res \<Longrightarrow>
   Then r fn = Returns res \<Longrightarrow> inv E zT res"
  by (auto simp: Then_def split: if_splits)

lemma inv_Map: "Map E zU r fm = Returns res \<Longrightarrow> inv E zU res"
  by (auto simp: Map_def inv_Ok inv_Fail split: if_splits outcome.splits)

lemma inv_MapErr: "MapErr zT F r fe = Returns res \<Longrightarrow> inv F zT res"
  by (auto simp: MapErr_def inv_Ok inv_Fail split: if_splits outcome.splits)

lemma inv_Wrap: "inv TError zT (Wrap zT r msg)"
  by (simp add: Wrap_def inv_Ok inv_Fail)

lemma inv_All_loop: "inv E [] (All_loop E acc results)"
  by (induction results arbitrary: acc) (simp_all add: inv_Ok inv_Fail)

lemma inv_ThenWithContext:
  "inv E zT r \<Longrightarrow> \<forall>v res. fn v = Returns res \<longrightarrow> inv E zT res \<Longrightarrow>
   ThenWithContext E zT ctx r fn = Returns res \<Longrightarrow> inv E zT res"
  by (auto simp: ThenWithContext_def dest: inv_Fail_asserted split: if_splits)

lemma inv_MapWithContext: "MapWithContext E zU ctx r fm = Returns res \<Longrightarrow> inv E zU res"
  by (auto simp: MapWithContext_def inv_Ok inv_Fail dest: inv_Fail_asserted
      split: if_splits outcome.splits)

lemma sent_deliver:
  "x \<in> set (sent (fst (deliver out ch))) \<Longrightarrow> x \<in> set (sent ch) \<or> out = Returns x"
  by (auto simp: deliver_def split: outcome.splits)

lemma sent_defer_close: "sent (fst (defer_close body ch)) = sent (fst (body ch))"
  by (auto simp: defer_close_def split: prod.splits ending.splits)

lemma select2_Received: "select2 s out sig = Received res \<Longrightarrow> out = Returns res"
  by (cases out; cases sig) (auto split: if_splits)

lemma inv_AsyncThen:
  assumes "inv E zT r" and "\<forall>v res. fn v = Returns res \<longrightarrow> inv E zT res"
    and "res \<in> set (sent (fst (AsyncThen r fn)))"
  shows "inv E zT res"
proof -
  from assms(3) have "Then r fn = Returns res"
    by (auto simp: AsyncThen_def sent_defer_close make_chan_def dest!: sent_deliver)
  with assms(1,2) show ?thesis by (rule inv_Then)
qed

lemma inv_select_body:
  assumes "inv E zT r" and "\<forall>v res. fn v = Returns res \<longrightarrow> inv E zT res"
    and "res \<in> set (sent (fst
           (case select2 s (Then r fn) sig of
              Received result \<Rightarrow> deliver (Returns result) make_chan
            | Signaled c \<Rightarrow> deliver (Fail_asserted E zT (cause c)) make_chan
            | SelectBlocked \<Rightarrow> (make_chan, Blocked)
            | ProgramCrashed p \<Rightarrow> (make_chan, Killed p))))"
  shows "inv E zT res"
proof (cases "select2 s (Then r fn) sig")
  case (Received result)
  then have "Then r fn = Returns result" by (rule select2_Received)
  moreover from assms(3) Received have "res = result"
    by (auto simp: make_chan_def dest!: sent_deliver)
  ultimately show ?thesis using assms(1,2) by (auto intro: inv_Then)
next
  case (Signaled c)
  with assms(3) have "Fail_asserted E zT (cause c) = Returns res"
    by (auto simp: make_chan_def dest!: sent_deliver)
  then show ?thesis by (rule inv_Fail_asserted)
next
  case SelectBlocked
  with assms(3) show ?thesis by (simp add: make_chan_def)
next
  case (ProgramCrashed p)
  with assms(3) show ?thesis by (simp add: make_chan_def)
qed

lemma inv_AsyncThenWithTimeout:
  assumes "inv E zT r" and "\<forall>v res. fn v = Returns res \<longrightarrow> inv E zT res"
    and "res \<in> set (sent (fst (AsyncThenWithTimeout E zT dstr s r fn t)))"
  shows "inv E zT res"
  using assms(3)
  unfolding AsyncThenWithTimeout_def sent_defer_close Let_def
  by (rule inv_select_body [OF assms(1,2), where cause = "\<lambda>u. Some (Errorf_timeout dstr t)"])

lemma inv_AsyncThenWithContext:
  assumes "inv E zT r" and "\<forall>v res. fn v = Returns res \<longrightarrow> inv E zT res"
    and "res \<in> set (sent (fst (AsyncThenWithContext E zT s ctx r fn)))"
  shows "inv E zT res"
proof (cases "Err ctx = None")
  case True
  with assms(3) have "res \<in> set (sent (fst
           (case select2 s (Then r fn) (Done ctx) of
              Received result \<Rightarrow> deliver (Returns result) make_chan
            | Signaled c \<Rightarrow> deliver (Fail_asserted E zT (Some c)) make_chan
            | SelectBlocked \<Rightarrow> (make_chan, Blocked)
            | ProgramCrashed p \<Rightarrow> (make_chan, Killed p))))"
    by (simp add: AsyncThenWithContext_def sent_defer_close)
  then show ?thesis
    by (rule inv_select_body [OF assms(1,2), where cause = Some])
next
  case False
  with assms(3) have "Fail_asserted E zT (Err ctx) = Returns res"
    by (auto simp: AsyncThenWithContext_def sent_defer_close make_chan_def dest!: sent_deliver)
  then show ?thesis by (rule inv_Fail_asserted)
qed

lemma inv_AsyncThenWithContextAndTimeout:
  assumes "inv E zT r" and "\<forall>v res. fn v = Returns res \<longrightarrow> inv E zT res"
    and "res \<in> set (sent (fst (AsyncThenWithContextAndTimeout E zT dstr s ctx r fn t)))"
  shows "inv E zT res"
proof (cases "Err ctx = None")
  case True
  with assms(3) have "res \<in> set (sent (fst
           (case select2 s (Then r fn) (Some (WithTimeout_cause s ctx)) of
              Received result \<Rightarrow> deliver (Returns result) make_chan
            | Signaled c \<Rightarrow>
                (let err = (if errors_Is (Some c) (Some DeadlineExceeded)
                            then Errorf_timeout dstr t else c)
                 in deliver (Fail_asserted E zT (Some err)) make_chan)
            | SelectBlocked \<Rightarrow> (make_chan, Blocked)
            | ProgramCrashed p \<Rightarrow> (make_chan, Killed p))))"
    by (simp add: AsyncThenWithContextAndTimeout_def sent_defer_close)
  then show ?thesis
    unfolding Let_def
    by (rule inv_select_body [OF assms(1,2),
         where cause = "\<lambda>c. Some (if errors_Is (Some c) (Some DeadlineExceeded)
                                     then Errorf_timeout dstr t else c)"])
next
  case False
  with assms(3) have "Fail_asserted E zT (Err ctx) = Returns res"
    by (auto simp: AsyncThenWithContextAndTimeout_def sent_defer_close make_chan_def
        dest!: sent_deliver)
  then show ?thesis by (rule inv_Fail_asserted)
qed

text \<open>
  C8. A Result that an operation produces has the zero fault of \<open>E\<close> when it is a Success
  and the zero value of \<open>T\<close> when it is a Failure: the constructors, \<open>Then\<close>, \<open>Map\<close>,
  \<open>MapErr\<close>, \<open>Wrap\<close>, \<open>All\<close>, the two combinators with a context, and every Result that an
  asynchronous combinator sends. \<open>Then\<close> and its relatives hand on their input or what the
  continuation returns, so for them the input and the continuation's Results are taken to
  satisfy the invariant. All operations take and return Results by value, as the methods
  of the package do (value receivers): none has an input it could write to.
\<close>

theorem results_keep_invariant:
  assumes r: "inv E zT r"
    and fn: "\<forall>v res. fn v = Returns res \<longrightarrow> inv E zT res"
  shows
    "inv E zT (Ok E v) \<and> inv E zT (Fail zT e)
     \<and> (\<forall>res. Then r fn = Returns res \<longrightarrow> inv E zT res)
     \<and> (\<forall>res. Map E zU r fm = Returns res \<longrightarrow> inv E zU res)
     \<and> (\<forall>res. MapErr zT F r fe = Returns res \<longrightarrow> inv F zT res)
     \<and> inv TError zT (Wrap zT r msg)
     \<and> inv E [] (All_results E results)
     \<and> (\<forall>res. ThenWithContext E zT ctx r fn = Returns res \<longrightarrow> inv E zT res)
     \<and> (\<forall>res. MapWithContext E zU ctx r fm = Returns res \<longrightarrow> inv E zU res)
     \<and> (\<forall>res \<in> set (sent (fst (AsyncThen r fn))). inv E zT res)
     \<and> (\<forall>res \<in> set (sent (fst (AsyncThenWithTimeout E zT dstr s r fn t))). inv E zT res)
     \<and> (\<forall>res \<in> set (sent (fst (AsyncThenWithContext E zT s ctx r fn))). inv E zT res)
     \<and> (\<forall>res \<in> set (sent (fst (AsyncThenWithContextAndTimeout E zT dstr s ctx r fn t))).
          inv E zT res)"
proof (intro conjI allI impI ballI)
  show "inv E zT (Ok E v)" by (rule inv_Ok)
  show "inv E zT (Fail zT e)" by (rule inv_Fail)
  show "inv TError zT (Wrap zT r msg)" by (rule inv_Wrap)
  show "inv E [] (All_results E results)" by (simp add: All_results_def inv_All_loop)
next
  fix res assume "Then r fn = Returns res"
  with r fn show "inv E zT res" by (rule inv_Then)
next
  fix res assume "Map E zU r fm = Returns res"
  then show "inv E zU res" by (rule inv_Map)
next
  fix res assume "MapErr zT F r fe = Returns res"
  then show "inv F zT res" by (rule inv_MapErr)
next
  fix res assume "ThenWithContext E zT ctx r fn = Returns res"
  with r fn show "inv E zT res" by (rule inv_ThenWithContext)
next
  fix res assume "MapWithContext E zU ctx r fm = Returns res"
  then show "inv E zU res" by (rule inv_MapWithContext)
next
  fix res assume "res \<in> set (sent (fst (AsyncThen r fn)))"
  with r fn show "inv E zT res" by (rule inv_AsyncThen)
next
  fix res assume "res \<in> set (sent (fst (AsyncThenWithTimeout E zT dstr s r fn t)))"
  with r fn show "inv E zT res" by (rule inv_AsyncThenWithTimeout)
next
  fix res assume "res \<in> set (sent (fst (AsyncThenWithContext E zT s ctx r fn)))"
  with r fn show "inv E zT res" by (rule inv_AsyncThenWithContext)
next
  fix res assume "res \<in> set (sent (fst (AsyncThenWithContextAndTimeout E zT dstr s ctx r fn t)))"
  with r fn show "inv E zT res" by (rule inv_AsyncThenWithContextAndTimeout)
qed

theorem results_keep_invariant_witness:
  "inv TError (0::int) (Ok TError 5)
   \<and> (\<exists>res. Then (Ok TError (5::int)) (\<lambda>x. Returns (Ok TError (x * 2))) = Returns res
            \<and> inv TError 0 res)
   \<and> (\<exists>res. Map TError ''zero'' (Ok TError (5::int)) (\<lambda>x. Returns (''five'', None)) = Returns res
            \<and> inv TError ''zero'' res)
   \<and> (\<exists>res. ThenWithContext TError 0 \<lparr>Err = Some Canceled, Done = Some Canceled\<rparr>
              (Ok TError (5::int)) (\<lambda>x. Returns (Ok TError (x * 2))) = Returns res
            \<and> inv TError 0 res)
   \<and> inv TError (0::int) (Wrap 0 (Ok TError 5) ''ctx'')
   \<and> inv TError [] (All_results TError [Ok TError (1::int), Fail 0 (Some (ErrorString ''e''))])
   \<and> (\<exists>res. sent (fst (AsyncThen (Ok TError (5::int)) (\<lambda>x. Returns (Ok TError (x * 2))))) = [res]
            \<and> inv TError 0 res)"
proof -
  let ?r = "Ok TError (5::int)"
  let ?fn = "\<lambda>x::int. Returns (Ok TError (x * 2))"
  let ?ctx = "\<lparr>Err = Some Canceled, Done = Some Canceled\<rparr>"
  have a: "inv TError (0::int) ?r" by (rule inv_Ok)
  have b: "\<forall>v res. ?fn v = Returns res \<longrightarrow> inv TError (0::int) res"
    by (auto simp: inv_Ok)
  note t = results_keep_invariant
    [OF a b, where zU = "''zero''" and fm = "\<lambda>x. Returns (''five'', None)"
       and ctx = ?ctx and msg = "''ctx''" and F = TError and fe = Returns
       and results = "[Ok TError (1::int), Fail 0 (Some (ErrorString ''e''))]"
       and v = 5 and e = None and dstr = "\<lambda>d. ''1s''" and t = 1
       and s = "\<lparr>signal_first = False, parent_first = False\<rparr>"]
  have 1: "Then ?r ?fn = Returns (Ok TError 10)"
    by (simp add: Then_def Ok_def)
  have 2: "Map TError ''zero'' ?r (\<lambda>x. Returns (''five'', None)) = Returns (Ok TError ''five'')"
    by (simp add: Map_def Ok_def)
  have 3: "ThenWithContext TError 0 ?ctx ?r ?fn = Returns (Fail 0 (Some Canceled))"
    by (simp add: ThenWithContext_def Fail_asserted_def Ok_def)
  have 4: "sent (fst (AsyncThen ?r ?fn)) = [Ok TError 10]"
    by (simp add: async_defs Then_def Ok_def)
  from t 1 2 3 4 show ?thesis
    by simp
qed

section \<open>What the asynchronous combinators deliver\<close>

lemma delivered_once_AsyncThen:
  "Then r fn = Returns res \<Longrightarrow> delivered_once (AsyncThen r fn)"
  by (simp add: delivered_once_def async_defs Fail_asserted_error)

lemma delivered_once_AsyncThenWithTimeout:
  "\<forall>p. Then r fn \<noteq> Panics p \<Longrightarrow>
   delivered_once (AsyncThenWithTimeout TError zT dstr s r fn t)"
  by (cases "Then r fn"; cases "signal_first s") (simp_all add: delivered_once_def async_defs Fail_asserted_error)

lemma delivered_once_AsyncThenWithContext:
  "\<forall>p. Then r fn \<noteq> Panics p \<Longrightarrow>
   Then r fn \<noteq> NeverReturns \<or> Err ctx \<noteq> None \<or> Done ctx \<noteq> None \<Longrightarrow>
   delivered_once (AsyncThenWithContext TError zT s ctx r fn)"
  by (cases "Then r fn"; cases "signal_first s"; cases "Err ctx"; cases "Done ctx")
     (simp_all add: delivered_once_def async_defs Fail_asserted_error)

lemma delivered_once_AsyncThenWithContextAndTimeout:
  "\<forall>p. Then r fn \<noteq> Panics p \<Longrightarrow>
   delivered_once (AsyncThenWithContextAndTimeout TError zT dstr s ctx r fn t)"
  by (cases "Then r fn"; cases "signal_first s"; cases "Err ctx")
     (simp_all add: delivered_once_def async_defs Fail_asserted_error)

text \<open>
  C9, as amended. Let the error type be \<open>error\<close> and let the continuation not panic. Then
  the channel of \<open>AsyncThenWithTimeout\<close> and of \<open>AsyncThenWithContextAndTimeout\<close> gets exactly
  one Result and is then closed, under every schedule and also when the continuation
  never returns, since their timer fires. The channel of \<open>AsyncThen\<close> does so when the
  continuation returns, and that of \<open>AsyncThenWithContext\<close> when the continuation returns or
  the context is or becomes done.
\<close>

theorem async_delivers_exactly_once:
  assumes "\<forall>p. Then r fn \<noteq> Panics p"
  shows
    "(Then r fn \<noteq> NeverReturns \<longrightarrow> delivered_once (AsyncThen r fn))
     \<and> delivered_once (AsyncThenWithTimeout TError zT dstr s r fn t)
     \<and> (Then r fn \<noteq> NeverReturns \<or> Err ctx \<noteq> None \<or> Done ctx \<noteq> None \<longrightarrow>
          delivered_once (AsyncThenWithContext TError zT s ctx r fn))
     \<and> delivered_once (AsyncThenWithContextAndTimeout TError zT dstr s ctx r fn t)"
proof (intro conjI impI)
  assume "Then r fn \<noteq> NeverReturns"
  with assms obtain res where "Then r fn = Returns res"
    by (cases "Then r fn") auto
  then show "delivered_once (AsyncThen r fn)"
    by (rule delivered_once_AsyncThen)
next
  show "delivered_once (AsyncThenWithTimeout TError zT dstr s r fn t)"
    using assms by (rule delivered_once_AsyncThenWithTimeout)
next
  assume "Then r fn \<noteq> NeverReturns \<or> Err ctx \<noteq> None \<or> Done ctx \<noteq> None"
  with assms show "delivered_once (AsyncThenWithContext TError zT s ctx r fn)"
    by (rule delivered_once_AsyncThenWithContext)
next
  show "delivered_once (AsyncThenWithContextAndTimeout TError zT dstr s ctx r fn t)"
    using assms by (rule delivered_once_AsyncThenWithContextAndTimeout)
qed

theorem async_delivers_exactly_once_witness:
  "delivered_once (AsyncThen (Ok TError (5::int)) (\<lambda>x. Returns (Ok TError (x * 2))))
   \<and> delivered_once
       (AsyncThenWithTimeout TError (0::int) (\<lambda>d. ''50ms'')
          \<lparr>signal_first = True, parent_first = False\<rparr>
          (Ok TError 5) (\<lambda>x. Returns (Ok TError (x * 2))) 50000000)
   \<and> delivered_once
       (AsyncThenWithContext TError (0::int) \<lparr>signal_first = True, parent_first = False\<rparr>
          \<lparr>Err = None, Done = Some Canceled\<rparr> (Ok TError 5) (\<lambda>x. Returns (Ok TError (x * 2))))
   \<and> delivered_once
       (AsyncThenWithContextAndTimeout TError (0::int) (\<lambda>d. ''50ms'')
          \<lparr>signal_first = True, parent_first = False\<rparr> \<lparr>Err = None, Done = Some Canceled\<rparr>
          (Ok TError 5) (\<lambda>x. Returns (Ok TError (x * 2))) 50000000)
   \<and> delivered_once
       (AsyncThenWithTimeout TError (0::int) (\<lambda>d. ''50ms'')
          \<lparr>signal_first = False, parent_first = False\<rparr>
          (Ok TError 5) (\<lambda>x. NeverReturns) 50000000)"
proof -
  have a: "\<forall>p. Then (Ok TError (5::int)) (\<lambda>x. Returns (Ok TError (x * 2))) \<noteq> Panics p"
    by (simp add: Then_def Ok_def)
  have b: "\<forall>p. Then (Ok TError (5::int)) (\<lambda>x. NeverReturns) \<noteq> Panics p"
    by (simp add: Then_def Ok_def)
  show ?thesis
    using async_delivers_exactly_once
            [OF a, where zT = 0 and dstr = "\<lambda>d. ''50ms''" and t = 50000000
               and s = "\<lparr>signal_first = True, parent_first = False\<rparr>"
               and ctx = "\<lparr>Err = None, Done = Some Canceled\<rparr>"]
          async_delivers_exactly_once
            [OF b, where zT = 0 and dstr = "\<lambda>d. ''50ms''" and t = 50000000
               and s = "\<lparr>signal_first = False, parent_first = False\<rparr>"
               and ctx = "\<lparr>Err = None, Done = None\<rparr>"]
    by (simp add: Then_def Ok_def)
qed

text \<open>
  C9 as it stands, for every invocation, fails: a continuation that never returns
  leaves the channel of \<open>AsyncThen\<close>, and that of \<open>AsyncThenWithContext\<close> under a context that
  is never done, empty and open for ever.
\<close>

theorem AsyncThen_never_delivers:
  "AsyncThen (Ok TError (1::int)) (\<lambda>x. NeverReturns) = (\<lparr>sent = [], closed = False\<rparr>, Blocked)
   \<and> \<not> delivered_once (AsyncThen (Ok TError (1::int)) (\<lambda>x. NeverReturns))
   \<and> \<not> delivered_once
         (AsyncThenWithContext TError (0::int) \<lparr>signal_first = False, parent_first = False\<rparr>
            \<lparr>Err = None, Done = None\<rparr> (Ok TError 1) (\<lambda>x. NeverReturns))"
  by (simp add: delivered_once_def async_defs Then_def Ok_def)

end
